theory Spec2Isabelle
  imports Complex_Main
begin

section \<open>Array values\<close>

text \<open>
  The arrays of \<^verbatim>\<open>jwstnirspec_cal.py\<close> hold numpy doubles.  The code uses the three
  non-finite values as data: NaN marks an excluded pixel or an under-constrained
  coefficient, and the infinities arise from divisions by zero.  A value is therefore
  either a finite number or one of the three special values.  Finite arithmetic is exact
  (no rounding, no overflow to infinity) and zero carries no sign: a division of a
  non-zero number by zero yields the infinity with the sign of the numerator.
\<close>

datatype npfloat = Fin real | PInf | NInf | NaN

datatype py_error = IndexError | ValueError | OverflowError | UnboundLocalError
  | TypeError | ZeroDivisionError | DegenerateBasis | SolverError | FitError | PlainException

fun isnan :: "npfloat \<Rightarrow> bool" where
  "isnan NaN = True"
| "isnan _ = False"

fun isfinite :: "npfloat \<Rightarrow> bool" where
  "isfinite (Fin _) = True"
| "isfinite _ = False"

fun fneg :: "npfloat \<Rightarrow> npfloat" where
  "fneg (Fin a) = Fin (- a)"
| "fneg PInf = NInf"
| "fneg NInf = PInf"
| "fneg NaN = NaN"

fun fabs :: "npfloat \<Rightarrow> npfloat" where
  "fabs (Fin a) = Fin \<bar>a\<bar>"
| "fabs PInf = PInf"
| "fabs NInf = PInf"
| "fabs NaN = NaN"

fun fadd :: "npfloat \<Rightarrow> npfloat \<Rightarrow> npfloat" where
  "fadd (Fin a) (Fin b) = Fin (a + b)"
| "fadd NaN _ = NaN"
| "fadd _ NaN = NaN"
| "fadd PInf NInf = NaN"
| "fadd NInf PInf = NaN"
| "fadd PInf _ = PInf"
| "fadd _ PInf = PInf"
| "fadd NInf _ = NInf"
| "fadd _ NInf = NInf"

definition fsub :: "npfloat \<Rightarrow> npfloat \<Rightarrow> npfloat" where
  "fsub x y = fadd x (fneg y)"

text \<open>The sign of a value: 1, 0 or -1; NaN has none.\<close>

fun fsign :: "npfloat \<Rightarrow> int option" where
  "fsign (Fin a) = Some (if a > 0 then 1 else if a < 0 then - 1 else 0)"
| "fsign PInf = Some 1"
| "fsign NInf = Some (- 1)"
| "fsign NaN = None"

definition inf_of_sign :: "int \<Rightarrow> npfloat" where
  "inf_of_sign s = (if s > 0 then PInf else if s < 0 then NInf else NaN)"

fun fmul :: "npfloat \<Rightarrow> npfloat \<Rightarrow> npfloat" where
  "fmul (Fin a) (Fin b) = Fin (a * b)"
| "fmul x y = (case (fsign x, fsign y) of
      (Some s, Some t) \<Rightarrow> inf_of_sign (s * t)
    | _ \<Rightarrow> NaN)"

fun fdiv :: "npfloat \<Rightarrow> npfloat \<Rightarrow> npfloat" where
  "fdiv (Fin a) (Fin b) =
     (if b \<noteq> 0 then Fin (a / b)
      else if a > 0 then PInf else if a < 0 then NInf else NaN)"
| "fdiv NaN _ = NaN"
| "fdiv _ NaN = NaN"
| "fdiv (Fin a) _ = Fin 0"
| "fdiv PInf (Fin b) = (if b \<ge> 0 then PInf else NInf)"
| "fdiv NInf (Fin b) = (if b \<ge> 0 then NInf else PInf)"
| "fdiv _ _ = NaN"

fun fsqrt :: "npfloat \<Rightarrow> npfloat" where
  "fsqrt (Fin a) = (if a \<ge> 0 then Fin (sqrt a) else NaN)"
| "fsqrt PInf = PInf"
| "fsqrt _ = NaN"

text \<open>Comparisons: every comparison with NaN is false, except \<open>!=\<close>.\<close>

fun flt :: "npfloat \<Rightarrow> npfloat \<Rightarrow> bool" where
  "flt NaN _ = False"
| "flt _ NaN = False"
| "flt (Fin a) (Fin b) = (a < b)"
| "flt NInf NInf = False"
| "flt NInf _ = True"
| "flt _ NInf = False"
| "flt PInf _ = False"
| "flt _ PInf = True"

definition fgt :: "npfloat \<Rightarrow> npfloat \<Rightarrow> bool" where
  "fgt x y = flt y x"

definition fle :: "npfloat \<Rightarrow> npfloat \<Rightarrow> bool" where
  "fle x y = (\<not> isnan x \<and> \<not> isnan y \<and> \<not> flt y x)"

definition fge :: "npfloat \<Rightarrow> npfloat \<Rightarrow> bool" where
  "fge x y = fle y x"

definition fne :: "npfloat \<Rightarrow> npfloat \<Rightarrow> bool" where
  "fne x y = (isnan x \<or> isnan y \<or> flt x y \<or> flt y x)"

text \<open>\<^verbatim>\<open>np.sum\<close> and \<^verbatim>\<open>np.nansum\<close> of a one-dimensional array.\<close>

definition np_sum :: "npfloat list \<Rightarrow> npfloat" where
  "np_sum xs = foldl fadd (Fin 0) xs"

definition np_nansum :: "npfloat list \<Rightarrow> npfloat" where
  "np_nansum xs = np_sum (filter (\<lambda>x. \<not> isnan x) xs)"

text \<open>Python's \<^verbatim>\<open>int()\<close> of a double: truncation toward zero; it raises on the
  non-finite values.\<close>

fun py_int :: "npfloat \<Rightarrow> py_error + int" where
  "py_int (Fin a) = Inr (if a \<ge> 0 then \<lfloor>a\<rfloor> else \<lceil>a\<rceil>)"
| "py_int NaN = Inl ValueError"
| "py_int _ = Inl OverflowError"

section \<open>Index arrays\<close>

text \<open>\<^verbatim>\<open>np.where(mask)[0]\<close>, \<^verbatim>\<open>a[idx]\<close>, \<^verbatim>\<open>a[idx] = values\<close> and
  \<^verbatim>\<open>a[idx] = c\<close> on one-dimensional arrays.\<close>

definition np_where :: "bool list \<Rightarrow> nat list" where
  "np_where bs = filter (\<lambda>i. bs ! i) [0..<length bs]"

definition take_idx :: "'a list \<Rightarrow> nat list \<Rightarrow> 'a list" where
  "take_idx xs idx = map (\<lambda>i. xs ! i) idx"

definition put_idx :: "'a list \<Rightarrow> nat list \<Rightarrow> 'a list \<Rightarrow> 'a list" where
  "put_idx xs idx vs = fold (\<lambda>(i, v) acc. acc[i := v]) (zip idx vs) xs"

definition fill_idx :: "'a list \<Rightarrow> nat list \<Rightarrow> 'a \<Rightarrow> 'a list" where
  "fill_idx xs idx c = fold (\<lambda>i acc. acc[i := c]) idx xs"

text \<open>Sorting by value (\<^verbatim>\<open>np.argsort\<close> on an array without NaN), by insertion.\<close>

fun ins_key :: "(npfloat \<times> nat) \<Rightarrow> (npfloat \<times> nat) list \<Rightarrow> (npfloat \<times> nat) list" where
  "ins_key s [] = [s]"
| "ins_key s (t # ts) = (if flt (fst t) (fst s) then t # ins_key s ts else s # t # ts)"

definition np_argsort :: "npfloat list \<Rightarrow> nat list" where
  "np_argsort xs = map snd (foldr ins_key (zip xs [0..<length xs]) [])"

definition np_sort :: "npfloat list \<Rightarrow> npfloat list" where
  "np_sort xs = take_idx xs (np_argsort xs)"

text \<open>\<^verbatim>\<open>np.nanmedian\<close>: the median of the values that are not NaN, NaN when there is
  none.\<close>

definition np_nanmedian :: "npfloat list \<Rightarrow> npfloat" where
  "np_nanmedian xs =
     (let ys = np_sort (filter (\<lambda>x. \<not> isnan x) xs); n = length ys
      in if n = 0 then NaN
         else if odd n then ys ! (n div 2)
         else fdiv (fadd (ys ! (n div 2 - 1)) (ys ! (n div 2))) (Fin 2))"

section \<open>The spectral combiner\<close>

text \<open>
  \<^verbatim>\<open>combine_spectrum(wavelengths, fluxes, errors, bin_size)\<close>.  The clipping routine
  \<^verbatim>\<open>sigma_clip(x, 3, masked=True).mask\<close> belongs to an external library and is a
  parameter: it maps the array of finite statistics to a mask of the same length, true
  where a value is rejected.
\<close>

definition combine_bin ::
  "(npfloat list \<Rightarrow> bool list) \<Rightarrow> npfloat list \<Rightarrow> npfloat list \<Rightarrow> npfloat list
    \<Rightarrow> npfloat \<Rightarrow> nat \<Rightarrow> npfloat \<times> npfloat \<times> npfloat" where
  "combine_bin sigma_clip wavelengths fluxes errors bin_size i =
     (let bin_start = fadd (hd wavelengths) (fmul (Fin (real i)) bin_size);
          bin_end = fadd bin_start bin_size;
          centre = fadd bin_start (fdiv bin_size (Fin 2));
          bin_mask = map (\<lambda>w. fge w bin_start \<and> flt w bin_end) wavelengths
      in if np_where bin_mask = [] then (centre, NaN, NaN)
         else
           let bin_fluxes = take_idx fluxes (np_where bin_mask);
               bin_errors = take_idx errors (np_where bin_mask);
               med = np_nanmedian bin_fluxes;
               tmp_snr = map (\<lambda>(f, e). fdiv (fsub f med) e) (zip bin_fluxes bin_errors);
               where_tmp_snr_finite = np_where (map isfinite tmp_snr)
           in if where_tmp_snr_finite = [] then (centre, NaN, NaN)
              else
                let mask = put_idx (replicate (length tmp_snr) False) where_tmp_snr_finite
                             (sigma_clip (take_idx tmp_snr where_tmp_snr_finite));
                    where_valid = np_where (map Not mask);
                    bin_fluxes2 = take_idx bin_fluxes where_valid;
                    bin_errors2 = take_idx bin_errors where_valid;
                    weights = map (\<lambda>e. fdiv (Fin 1) (fmul e e)) bin_errors2
                in if length weights > 0
                   then (centre,
                         fdiv (np_sum (map (\<lambda>(w, f). fmul w f) (zip weights bin_fluxes2)))
                              (np_sum weights),
                         fdiv (Fin 1) (fsqrt (np_sum weights)))
                   else (centre, NaN, NaN))"

text \<open>Lines 2841--2845: samples whose wavelength or flux is NaN are removed; the error is
  not inspected.\<close>

definition remove_nans ::
  "npfloat list \<Rightarrow> npfloat list \<Rightarrow> npfloat list
    \<Rightarrow> npfloat list \<times> npfloat list \<times> npfloat list" where
  "remove_nans wavelengths fluxes errors =
     (let nan_mask = map (\<lambda>(w, f). isnan w \<or> isnan f) (zip wavelengths fluxes);
          where_mask = np_where (map Not nan_mask)
      in (take_idx wavelengths where_mask, take_idx fluxes where_mask,
          take_idx errors where_mask))"

text \<open>Lines 2848--2851: the three arrays are sorted by wavelength.\<close>

definition sort_by_wavelength ::
  "npfloat list \<times> npfloat list \<times> npfloat list
    \<Rightarrow> npfloat list \<times> npfloat list \<times> npfloat list" where
  "sort_by_wavelength s =
     (case s of (wavelengths, fluxes, errors) \<Rightarrow>
        let sort_indices = np_argsort wavelengths
        in (take_idx wavelengths sort_indices, take_idx fluxes sort_indices,
            take_idx errors sort_indices))"

text \<open>Lines 2854--2906: the number of bins and the loop over the bins.  Reading the first
  or last element of an empty array raises, and so do \<^verbatim>\<open>int()\<close> of a non-finite value
  and \<^verbatim>\<open>np.zeros\<close> of a negative length.\<close>

definition combine_sorted ::
  "(npfloat list \<Rightarrow> bool list) \<Rightarrow> npfloat list \<times> npfloat list \<times> npfloat list
    \<Rightarrow> npfloat \<Rightarrow> py_error + (npfloat list \<times> npfloat list \<times> npfloat list)" where
  "combine_sorted sigma_clip s bin_size =
     (case s of (wavelengths, fluxes, errors) \<Rightarrow>
        if wavelengths = [] then Inl IndexError
        else case py_int (fdiv (fsub (last wavelengths) (hd wavelengths)) bin_size) of
               Inl e \<Rightarrow> Inl e
             | Inr q \<Rightarrow>
                 let num_bins = q + 1
                 in if num_bins < 0 then Inl ValueError
                    else
                      let bins = map (combine_bin sigma_clip wavelengths fluxes errors bin_size)
                                   [0..<nat num_bins]
                      in Inr (map fst bins, map (fst \<circ> snd) bins, map (snd \<circ> snd) bins))"

definition combine_spectrum ::
  "(npfloat list \<Rightarrow> bool list) \<Rightarrow> npfloat list \<Rightarrow> npfloat list \<Rightarrow> npfloat list
    \<Rightarrow> npfloat \<Rightarrow> py_error + (npfloat list \<times> npfloat list \<times> npfloat list)" where
  "combine_spectrum sigma_clip wavelengths fluxes errors bin_size =
     combine_sorted sigma_clip (sort_by_wavelength (remove_nans wavelengths fluxes errors))
       bin_size"

text \<open>A clipping routine that rejects nothing, used to run the combiner on examples.\<close>

definition no_clip :: "npfloat list \<Rightarrow> bool list" where
  "no_clip xs = replicate (length xs) False"


section \<open>The row normalizer\<close>

text \<open>
  Three routines the normalizer calls are not part of the file: the spline basis builder
  \<^verbatim>\<open>get_spline_model(x_nodes, samples, spline_degree=3)\<close> (imported from the package's
  utilities), the solver \<^verbatim>\<open>lsq_linear(A, b).x\<close> and \<^verbatim>\<open>median_abs_deviation\<close> (both from
  an external library).  They are parameters of the model.  The basis builder returns one
  row per sample and one column per node, or fails on a degenerate node sequence; the
  solver returns one coefficient per column of \<open>A\<close>, or fails.
\<close>

record ext =
  get_spline_model :: "npfloat list \<Rightarrow> npfloat list \<Rightarrow> npfloat list list option"
  lsq_linear :: "npfloat list list \<Rightarrow> npfloat list \<Rightarrow> npfloat list option"
  median_abs_deviation :: "npfloat list \<Rightarrow> npfloat"

text \<open>\<^verbatim>\<open>np.nanmax\<close> of the flattened matrix: the largest value that is not NaN, NaN when
  every value is NaN; the caller handles the empty matrix, on which numpy raises.\<close>

definition fmax :: "npfloat \<Rightarrow> npfloat \<Rightarrow> npfloat" where
  "fmax x y = (if flt x y then y else x)"

definition np_nanmax :: "npfloat list \<Rightarrow> npfloat" where
  "np_nanmax xs =
     (case filter (\<lambda>x. \<not> isnan x) xs of [] \<Rightarrow> NaN | y # ys \<Rightarrow> foldl fmax y ys)"

text \<open>Lines 2121--2125 and 2384: the columns kept for the fit are those with at least one
  entry strictly above \<^verbatim>\<open>np.nanmax(M) * rel\<close>.\<close>

definition valid_columns :: "npfloat list list \<Rightarrow> real \<Rightarrow> nat list" where
  "valid_columns M rel =
     np_where (map (\<lambda>j. list_ex (\<lambda>row. fgt (row ! j) (fmul (np_nanmax (concat M)) (Fin rel))) M)
                 [0..<length (hd M)])"

text \<open>Lines 2138--2151 and 2390--2400: one synthetic row per kept column whose prior
  standard deviation is finite, appended to the design matrix, the data and the noise.\<close>

definition with_prior ::
  "npfloat list list \<Rightarrow> npfloat list \<Rightarrow> npfloat list \<Rightarrow> nat list \<Rightarrow> npfloat list
    \<Rightarrow> npfloat list \<Rightarrow> npfloat list list \<times> npfloat list \<times> npfloat list" where
  "with_prior M d d_err validpara reg_mean reg_std =
     (let s_reg = take_idx reg_std validpara;
          d_reg = take_idx reg_mean validpara;
          where_reg = np_where (map isfinite s_reg);
          M_reg = map (\<lambda>t. (replicate (length validpara) (Fin 0))[t := Fin 1]) where_reg
      in (M @ M_reg, d @ take_idx d_reg where_reg, d_err @ take_idx s_reg where_reg))"

text \<open>The weighted system handed to the solver, \<^verbatim>\<open>M4fit / s4fit[:, None]\<close> and
  \<^verbatim>\<open>d4fit / s4fit\<close>, and the product \<^verbatim>\<open>np.dot(M, p)\<close>.\<close>

definition weighted_rows :: "npfloat list list \<Rightarrow> npfloat list \<Rightarrow> npfloat list list" where
  "weighted_rows M s = map (\<lambda>(row, e). map (\<lambda>v. fdiv v e) row) (zip M s)"

definition weighted_data :: "npfloat list \<Rightarrow> npfloat list \<Rightarrow> npfloat list" where
  "weighted_data d s = map (\<lambda>(v, e). fdiv v e) (zip d s)"

definition np_dot :: "npfloat list list \<Rightarrow> npfloat list \<Rightarrow> npfloat list" where
  "np_dot M p = map (\<lambda>row. np_sum (map (\<lambda>(a, c). fmul a c) (zip row p))) M"

text \<open>Lines 2163--2171 and 2408--2413, the scoring step: the normalized residual is NaN
  off the fitted pixels; a pixel is flagged when its normalized residual over the median
  absolute deviation exceeds the threshold in absolute value, or is NaN.\<close>

definition score ::
  "ext \<Rightarrow> npfloat \<Rightarrow> nat \<Rightarrow> nat list \<Rightarrow> npfloat list \<Rightarrow> npfloat list \<Rightarrow> npfloat list
    \<Rightarrow> npfloat list \<times> nat list" where
  "score E threshold n where_data_finite d m d_err =
     (let norm_res_row = put_idx (replicate n NaN) where_data_finite
                           (map (\<lambda>(r, e). fdiv r e) (zip (map (\<lambda>(a, c). fsub a c) (zip d m)) d_err));
          meddev = median_abs_deviation E (take_idx norm_res_row where_data_finite);
          where_bad = np_where (map (\<lambda>x. fgt (fdiv (fabs x) meddev) threshold \<or> isnan x)
                                  norm_res_row)
      in (norm_res_row, where_bad))"

text \<open>Line 2119 and line 2381: the rows of the spline basis at the fitted pixels, each
  scaled by the star model of its pixel.\<close>

definition row_design :: "npfloat list list \<Rightarrow> npfloat list \<Rightarrow> nat list \<Rightarrow> npfloat list list" where
  "row_design M_spline star idx = map (\<lambda>i. map (\<lambda>v. fmul v (star ! i)) (M_spline ! i)) idx"

text \<open>Lines 2121--2159 and 2384--2403: pruning of the columns, the optional prior rows,
  the solve and the model \<^verbatim>\<open>np.dot(M, p)\<close>.  The result is the kept columns, the
  coefficients of the kept columns and the model at the fitted pixels.  A solver result
  that does not have one coefficient per kept column cannot be stored nor multiplied.\<close>

definition fit_system ::
  "bool \<Rightarrow> npfloat list list \<Rightarrow> npfloat list \<Rightarrow> npfloat list \<Rightarrow> nat list
    \<Rightarrow> npfloat list \<Rightarrow> npfloat list \<Rightarrow> npfloat list list \<times> npfloat list" where
  "fit_system regularization M d d_err validpara reg_mean reg_std =
     (let (M4fit, d4fit, s4fit) =
             (if regularization then with_prior M d d_err validpara reg_mean reg_std
              else (M, d, d_err))
      in (weighted_rows M4fit s4fit, weighted_data d4fit s4fit))"

definition fit_columns ::
  "ext \<Rightarrow> real \<Rightarrow> bool \<Rightarrow> npfloat list list \<Rightarrow> npfloat list \<Rightarrow> npfloat list
    \<Rightarrow> npfloat list \<Rightarrow> npfloat list \<Rightarrow> py_error + (nat list \<times> npfloat list \<times> npfloat list)" where
  "fit_columns E rel regularization M0 d d_err reg_mean reg_std =
     (let validpara = valid_columns M0 rel;
          M = map (\<lambda>row. take_idx row validpara) M0;
          (A, b) = fit_system regularization M d d_err validpara reg_mean reg_std
      in case lsq_linear E A b of
           None \<Rightarrow> Inl SolverError
         | Some p \<Rightarrow>
             if length p \<noteq> length validpara then Inl ValueError
             else Inr (validpara, p, np_dot M p))"

text \<open>One iteration of the loop of \<^verbatim>\<open>_task_normrows\<close> (lines 2081--2171), on row \<open>k\<close>
  of each array.  The result is the row of the fitted model, of the noise, of the
  bad-pixel mask, of the residual and of the coefficients.  The model array starts as a
  copy of the image (converted to single precision, which the model does not round), the
  residual and the coefficients start as NaN.\<close>

record row_out =
  new_im_row :: "npfloat list"
  new_noise_row :: "npfloat list"
  new_badpix_row :: "npfloat list"
  res_row :: "npfloat list"
  paras_out_row :: "npfloat list"

definition where_row_finite ::
  "npfloat list \<Rightarrow> npfloat list \<Rightarrow> npfloat list \<Rightarrow> npfloat list \<Rightarrow> nat list" where
  "where_row_finite badpix im noise star =
     np_where (map (\<lambda>i. isfinite (badpix ! i) \<and> isfinite (im ! i) \<and> isfinite (noise ! i)
                        \<and> fne (noise ! i) (Fin 0) \<and> isfinite (star ! i)) [0..<length im])"

definition prune_rel :: "bool \<Rightarrow> real" where
  "prune_rel regularization = (if regularization then 1 / 100000 else 1 / 100)"

definition normrow ::
  "ext \<Rightarrow> npfloat list \<Rightarrow> npfloat \<Rightarrow> bool \<Rightarrow> npfloat list \<Rightarrow> npfloat list \<Rightarrow> npfloat list
    \<Rightarrow> npfloat list \<Rightarrow> npfloat list \<Rightarrow> npfloat list \<Rightarrow> npfloat list \<Rightarrow> py_error + row_out" where
  "normrow E nodes thr regularization im wvs noise badpix star reg_mean reg_std =
     (case get_spline_model E nodes wvs of
        None \<Rightarrow> Inl DegenerateBasis
      | Some M_spline \<Rightarrow>
          let where_data_finite = where_row_finite badpix im noise star
          in if where_data_finite = []
             then Inr \<lparr>new_im_row = im, new_noise_row = noise, new_badpix_row = badpix,
                       res_row = replicate (length im) NaN,
                       paras_out_row = replicate (length nodes) NaN\<rparr>
             else
               let d = take_idx im where_data_finite;
                   d_err = take_idx noise where_data_finite;
                   M0 = row_design M_spline star where_data_finite
               in if concat M0 = [] then Inl ValueError
                  else
                    case fit_columns E (prune_rel regularization) regularization M0 d d_err
                           reg_mean reg_std of
                      Inl e \<Rightarrow> Inl e
                    | Inr (validpara, p, m) \<Rightarrow>
                        let (norm_res_row, where_bad) =
                               score E thr (length im) where_data_finite d m d_err
                        in Inr \<lparr>new_im_row = put_idx im where_data_finite m,
                                 new_noise_row = put_idx noise where_data_finite d_err,
                                 new_badpix_row = fill_idx badpix where_bad NaN,
                                 res_row = put_idx (replicate (length im) NaN) where_data_finite
                                             (map (\<lambda>(a, c). fsub a c) (zip d m)),
                                 paras_out_row = put_idx (replicate (length nodes) NaN)
                                                   validpara p\<rparr>)"

text \<open>\<^verbatim>\<open>_task_normrows(paras)\<close>: the rows in order; an exception in one row ends the
  task.  The entry \<^verbatim>\<open>star_sub_mode\<close> of \<^verbatim>\<open>paras\<close> is never read.  The prior maps are
  read only when \<^verbatim>\<open>regularization\<close> is set.\<close>

record normrows_paras =
  im_rows :: "npfloat list list"
  im_wvs_rows :: "npfloat list list"
  noise_rows :: "npfloat list list"
  badpix_rows :: "npfloat list list"
  x_nodes :: "npfloat list"
  star_model :: "npfloat list list"
  threshold :: npfloat
  regularization :: bool
  reg_mean_map :: "npfloat list list"
  reg_std_map :: "npfloat list list"

fun sequence_rows :: "(nat \<Rightarrow> py_error + 'a) \<Rightarrow> nat list \<Rightarrow> py_error + 'a list" where
  "sequence_rows f [] = Inr []"
| "sequence_rows f (k # ks) =
     (case f k of
        Inl e \<Rightarrow> Inl e
      | Inr r \<Rightarrow> (case sequence_rows f ks of Inl e \<Rightarrow> Inl e | Inr rs \<Rightarrow> Inr (r # rs)))"

definition task_normrows :: "ext \<Rightarrow> normrows_paras \<Rightarrow> py_error + row_out list" where
  "task_normrows E paras =
     sequence_rows
       (\<lambda>k. normrow E (x_nodes paras) (threshold paras) (regularization paras)
               (im_rows paras ! k) (im_wvs_rows paras ! k) (noise_rows paras ! k)
               (badpix_rows paras ! k) (star_model paras ! k)
               (reg_mean_map paras ! k) (reg_std_map paras ! k))
       [0..<length (im_rows paras)]"

section \<open>The slice normalizer\<close>

text \<open>
  \<^verbatim>\<open>_task_normslice_2dspline(paras)\<close> (lines 2358--2420) fits one trace at a time.
  Its two-dimensional arrays are indexed through \<^verbatim>\<open>np.where\<close>, which lists the pixels
  in row-major order, so the model holds each array flattened in that order, and the
  coefficient array \<^verbatim>\<open>paras_out\<close> as its \<^verbatim>\<open>np.ravel\<close>.  The name
  \<^verbatim>\<open>ravel_im_ifuy\<close> is bound only when some pixel is usable and read in the next
  statement but one.  The fields of the two records carry the prefix \<open>sl\<close>.
\<close>

record slice_paras =
  sl_im :: "npfloat list"
  sl_im_wvs :: "npfloat list"
  sl_im_ifuy :: "npfloat list"
  sl_noise :: "npfloat list"
  sl_badpix :: "npfloat list"
  sl_wv_nodes :: "npfloat list"
  sl_ifuy_nodes :: "npfloat list"
  sl_wv_ref :: npfloat
  sl_star_model :: "npfloat list"
  sl_threshold :: npfloat
  sl_reg_mean_map :: "npfloat list"
  sl_reg_std_map :: "npfloat list"

record slice_out =
  sl_new_im :: "npfloat list"
  sl_new_noise :: "npfloat list"
  sl_new_badpix :: "npfloat list"
  sl_res :: "npfloat list"
  sl_paras_out :: "npfloat list"

definition np_repeat :: "'a list \<Rightarrow> nat \<Rightarrow> 'a list" where
  "np_repeat row n = concat (map (replicate n) row)"

definition np_tile :: "'a list \<Rightarrow> nat \<Rightarrow> 'a list" where
  "np_tile row n = concat (replicate n row)"

definition where_slice_finite :: "slice_paras \<Rightarrow> nat list" where
  "where_slice_finite P =
     np_where (map (\<lambda>i. isfinite (sl_badpix P ! i) \<and> isfinite (sl_im P ! i) \<and> isfinite (sl_noise P ! i)
                        \<and> fne (sl_noise P ! i) (Fin 0) \<and> isfinite (sl_star_model P ! i)
                        \<and> isfinite (sl_im_ifuy P ! i)) [0..<length (sl_im P)])"

definition spline2d :: "npfloat list list \<Rightarrow> npfloat list list \<Rightarrow> nat \<Rightarrow> nat \<Rightarrow> npfloat list list" where
  "spline2d M_spline_ifuy M_spline_wvs n_ifuy n_wv =
     map (\<lambda>(irow, wrow). map (\<lambda>(a, c). fmul a c) (zip (np_repeat irow n_wv) (np_tile wrow n_ifuy)))
       (zip M_spline_ifuy M_spline_wvs)"

text \<open>Lines 2369--2381: the design matrix of the slice, the product of the two spline
  bases over the pairs of nodes, scaled by the star model.\<close>

definition slice_design :: "ext \<Rightarrow> slice_paras \<Rightarrow> nat list \<Rightarrow> py_error + npfloat list list" where
  "slice_design E P where_data_finite =
     (let ravel_im_ifuy = take_idx (sl_im_ifuy P) where_data_finite;
          ravel_im_wvs = take_idx (sl_im_wvs P) where_data_finite
      in case get_spline_model E (sl_ifuy_nodes P)
                (map (\<lambda>(y, w). fmul (fdiv y w) (sl_wv_ref P)) (zip ravel_im_ifuy ravel_im_wvs)) of
           None \<Rightarrow> Inl DegenerateBasis
         | Some M_spline_ifuy \<Rightarrow>
            (case get_spline_model E (sl_wv_nodes P) ravel_im_wvs of
               None \<Rightarrow> Inl DegenerateBasis
             | Some M_spline_wvs \<Rightarrow>
                 let M_2dspline = spline2d M_spline_ifuy M_spline_wvs
                                    (length (sl_ifuy_nodes P)) (length (sl_wv_nodes P))
                 in Inr (map (\<lambda>(row, s). map (\<lambda>v. fmul v s) row)
                           (zip M_2dspline (take_idx (sl_star_model P) where_data_finite)))))"

definition task_normslice_2dspline :: "ext \<Rightarrow> slice_paras \<Rightarrow> py_error + slice_out" where
  "task_normslice_2dspline E P =
     (let where_data_finite = where_slice_finite P
      in if where_data_finite = [] then Inl UnboundLocalError
         else
           case slice_design E P where_data_finite of
             Inl e \<Rightarrow> Inl e
           | Inr M0 \<Rightarrow>
               let d = take_idx (sl_im P) where_data_finite;
                   d_err = take_idx (sl_noise P) where_data_finite
               in if concat M0 = [] then Inl ValueError
                  else
                    case fit_columns E (5 / 1000) True M0 d d_err
                           (sl_reg_mean_map P) (sl_reg_std_map P) of
                      Inl e \<Rightarrow> Inl e
                    | Inr (validpara, p, m) \<Rightarrow>
                        let (norm_res, where_bad) =
                               score E (sl_threshold P) (length (sl_im P)) where_data_finite
                                 d m d_err
                        in Inr \<lparr>sl_new_im = put_idx (replicate (length (sl_im P)) NaN)
                                              where_data_finite m,
                                 sl_new_noise = put_idx (sl_noise P) where_data_finite d_err,
                                 sl_new_badpix = fill_idx (sl_badpix P) where_bad NaN,
                                 sl_res = put_idx (replicate (length (sl_im P)) NaN)
                                           where_data_finite
                                           (map (\<lambda>(a, c). fsub a c) (zip d m)),
                                 sl_paras_out = put_idx
                                    (replicate (length (sl_ifuy_nodes P) * length (sl_wv_nodes P)) NaN)
                                    validpara p\<rparr>)"

section \<open>Stand-ins for the external routines\<close>

text \<open>
  To run the model on examples the three external routines are replaced by stand-ins: a
  basis whose column \<open>j\<close> is 1 at the samples that lie on node \<open>j\<close> and 0 elsewhere (what
  an interpolating basis gives at its nodes), a solver that returns the coefficient 1 for
  every column, and the median absolute deviation as the library documents its default:
  the median of the absolute deviations from the median, NaN on an array that holds a NaN
  or is empty.
\<close>

definition np_median :: "npfloat list \<Rightarrow> npfloat" where
  "np_median xs = (if list_ex isnan xs then NaN else np_nanmedian xs)"

definition mad_default :: "npfloat list \<Rightarrow> npfloat" where
  "mad_default xs = np_median (map (\<lambda>x. fabs (fsub x (np_median xs))) xs)"

definition example_ext :: ext where
  "example_ext =
     \<lparr>get_spline_model = (\<lambda>nodes xs. Some (map (\<lambda>x. map (\<lambda>n. if x = n then Fin 1 else Fin 0) nodes) xs)),
      lsq_linear = (\<lambda>A b. Some (replicate (length (hd A)) (Fin 1))),
      median_abs_deviation = mad_default\<rparr>"

text \<open>One row of four pixels on the first of two nodes: the third pixel carries a spike,
  the fourth is already excluded.\<close>

definition example_paras :: normrows_paras where
  "example_paras =
     \<lparr>im_rows = [[Fin 1, Fin 1, Fin 100, Fin 7]], im_wvs_rows = [[Fin 1, Fin 1, Fin 1, Fin 1]],
      noise_rows = [[Fin 1, Fin 1, Fin 1, Fin 1]], badpix_rows = [[Fin 1, Fin 1, Fin 1, NaN]],
      x_nodes = [Fin 1, Fin 2], star_model = [[Fin 1, Fin 1, Fin 1, Fin 1]], threshold = Fin 10,
      regularization = False, reg_mean_map = [], reg_std_map = []\<rparr>"

text \<open>The stand-ins with the solver's answer for the two-pixel row of the pruning example,
  whose pruned system has the single solution 3; and a slice of one pixel over one spatial
  node and two wavelength nodes.\<close>

definition boundary_ext :: ext where
  "boundary_ext = example_ext\<lparr>lsq_linear := (\<lambda>A b. Some [Fin 3])\<rparr>"

definition example_slice :: slice_paras where
  "example_slice =
     \<lparr>sl_im = [Fin 3], sl_im_wvs = [Fin 1], sl_im_ifuy = [Fin 1], sl_noise = [Fin 1],
      sl_badpix = [Fin 1], sl_wv_nodes = [Fin 1, Fin 2], sl_ifuy_nodes = [Fin 1], sl_wv_ref = Fin 1,
      sl_star_model = [Fin 1], sl_threshold = Fin 10,
      sl_reg_mean_map = [Fin 3, Fin 3], sl_reg_std_map = [Fin 1, Fin 1]\<rparr>"


section \<open>The prior of the regularization\<close>

text \<open>\<^verbatim>\<open>np.clip(x, lo, hi)\<close>: the larger of \<open>x\<close> and \<open>lo\<close>, then the smaller of that and
  \<open>hi\<close>; NaN stays NaN.\<close>

definition np_clip :: "npfloat \<Rightarrow> npfloat \<Rightarrow> npfloat \<Rightarrow> npfloat" where
  "np_clip x lo hi = (let y = (if flt x lo then lo else x) in if flt hi y then hi else y)"

text \<open>
  \<^verbatim>\<open>compute_starsubtraction\<close>, lines 1377--1383.  The prior mean is the coefficient
  array of the earlier fit with every NaN replaced by the median of the row.  The prior
  standard deviation is the absolute value of the coefficient array with every NaN
  replaced by the largest absolute value of the row, clipped from below at \<open>1e-11\<close>.
\<close>

definition starsub_reg_mean_row :: "npfloat list \<Rightarrow> npfloat list" where
  "starsub_reg_mean_row row = map (\<lambda>x. if isnan x then np_nanmedian row else x) row"

definition starsub_reg_std_row :: "npfloat list \<Rightarrow> npfloat list" where
  "starsub_reg_std_row row =
     map (\<lambda>x. np_clip (if isnan x then np_nanmax (map fabs row) else fabs x) (Fin (1 / 10 ^ 11)) PInf)
       row"

definition starsub_prior :: "npfloat list list \<Rightarrow> npfloat list list \<times> npfloat list list" where
  "starsub_prior spline_paras0 =
     (map starsub_reg_mean_row spline_paras0, map starsub_reg_std_row spline_paras0)"

text \<open>
  \<^verbatim>\<open>compute_starspectrum_contnorm\<close>, lines 1086--1089, the iterative pass.  The prior
  mean is the coefficient array of the first pass with every NaN replaced by the entry of
  the first prior (a value per row); the prior standard deviation is its absolute value,
  not clipped.
\<close>

definition contnorm_prior ::
  "npfloat list list \<Rightarrow> npfloat list list \<Rightarrow> npfloat list list \<times> npfloat list list" where
  "contnorm_prior spline_paras0 reg_mean_map0 =
     (let reg_mean_map1 =
            map (\<lambda>(row, row0). map (\<lambda>(x, x0). if isnan x then x0 else x) (zip row row0))
              (zip spline_paras0 reg_mean_map0)
      in (reg_mean_map1, map (map fabs) reg_mean_map1))"

section \<open>The matched-filter cube\<close>

text \<open>
  \<^verbatim>\<open>_build_cube_task\<close> (lines 3675--3707) works on the pixels of one wavelength slice.
  The interpolated model of the point-spread function, \<^verbatim>\<open>_interp_psf(psf_interp_paras)\<close>,
  is built by an external library from the model of the slice; it is a parameter, a
  function of the two offsets, indexed in \<^verbatim>\<open>build_cube\<close> by the wavelength whose model
  it interpolates.  \<^verbatim>\<open>np.nanstd\<close> is the root of the mean squared deviation
  from the mean of the values that are not NaN.
\<close>

definition np_nanstd :: "npfloat list \<Rightarrow> npfloat" where
  "np_nanstd xs =
     (let ys = filter (\<lambda>x. \<not> isnan x) xs; n = Fin (real (length ys))
      in if ys = [] then NaN
         else let mu = fdiv (np_sum ys) n
              in fsqrt (fdiv (np_sum (map (\<lambda>y. fmul (fabs (fsub y mu)) (fabs (fsub y mu))) ys)) n))"

record slice_pixels =
  pX :: "npfloat list"
  pY :: "npfloat list"
  pZ :: "npfloat list"
  pZerr :: "npfloat list"
  pZbp :: "npfloat list"

text \<open>Lines 3685--3688: the pixels of a cell that pass the screen.\<close>

definition cell_where_finite ::
  "(npfloat list \<Rightarrow> npfloat) \<Rightarrow> slice_pixels \<Rightarrow> npfloat \<Rightarrow> npfloat \<Rightarrow> npfloat \<Rightarrow> nat list" where
  "cell_where_finite mad S aper_radius ra dec =
     (let R = map (\<lambda>(x, y). fsqrt (fadd (fmul (fsub x ra) (fsub x ra)) (fmul (fsub y dec) (fsub y dec))))
                (zip (pX S) (pY S));
          Zerr_masking = map (\<lambda>e. fdiv e (mad (filter isfinite (pZerr S)))) (pZerr S)
      in np_where (map (\<lambda>i. isfinite (pZbp S ! i) \<and> flt (Zerr_masking ! i) (Fin 50)
                              \<and> isfinite (pX S ! i) \<and> isfinite (pY S ! i)
                              \<and> flt (R ! i) aper_radius) [0..<length (pX S)]))"

text \<open>Lines 3690--3706: the flux and the error of one cell.\<close>

definition matched_filter ::
  "npfloat list \<Rightarrow> npfloat list \<Rightarrow> npfloat list \<Rightarrow> npfloat \<times> npfloat" where
  "matched_filter M Z_fin Zerr_fin =
     (let deno = np_nansum (map (\<lambda>(m, e). fdiv (fmul m m) (fmul e e)) (zip M Zerr_fin));
          mfflux = fdiv (np_nansum (map (\<lambda>((m, z), e). fdiv (fmul m z) (fmul e e))
                                      (zip (zip M Z_fin) Zerr_fin))) deno;
          mffluxerr = fdiv (Fin 1) (fsqrt deno);
          res = map (\<lambda>(z, m). fsub z (fmul mfflux m)) (zip Z_fin M);
          noise_factor = np_nanstd (map (\<lambda>(r, e). fdiv r e) (zip res Zerr_fin))
      in (mfflux, fmul mffluxerr noise_factor))"

definition cube_cell ::
  "(npfloat list \<Rightarrow> npfloat) \<Rightarrow> (npfloat \<Rightarrow> npfloat \<Rightarrow> npfloat) \<Rightarrow> slice_pixels \<Rightarrow> npfloat
    \<Rightarrow> npfloat \<Rightarrow> npfloat \<Rightarrow> npfloat \<Rightarrow> npfloat \<times> npfloat" where
  "cube_cell mad psf_interp S aper_radius N_pix_min ra dec =
     (let where_finite = cell_where_finite mad S aper_radius ra dec
      in if flt (Fin (real (length where_finite))) N_pix_min then (NaN, NaN)
         else
           let X_fin = take_idx (pX S) where_finite;
               Y_fin = take_idx (pY S) where_finite;
               Z_fin = take_idx (pZ S) where_finite;
               Zerr_fin = take_idx (pZerr S) where_finite;
               M = map (\<lambda>(x, y). psf_interp (fsub x ra) (fsub y dec)) (zip X_fin Y_fin)
           in matched_filter M Z_fin Zerr_fin)"

text \<open>The task: the cells in the order of the two loops, right ascension outside,
  declination inside, each with its two indices.\<close>

definition build_cube_task ::
  "(npfloat list \<Rightarrow> npfloat) \<Rightarrow> (npfloat \<Rightarrow> npfloat \<Rightarrow> npfloat) \<Rightarrow> slice_pixels \<Rightarrow> npfloat list
    \<Rightarrow> npfloat list \<Rightarrow> npfloat \<Rightarrow> npfloat \<Rightarrow> (nat \<times> nat \<times> npfloat \<times> npfloat) list" where
  "build_cube_task mad psf_interp S ra_vec dec_vec aper_radius N_pix_min =
     concat (map (\<lambda>ra_id.
        map (\<lambda>dec_id.
               (case cube_cell mad psf_interp S aper_radius N_pix_min (ra_vec ! ra_id) (dec_vec ! dec_id) of
                  (flux, err) \<Rightarrow> (ra_id, dec_id, flux, err)))
          [0..<length dec_vec])
        [0..<length ra_vec])"

text \<open>
  \<^verbatim>\<open>build_cube\<close> (lines 3709--3790).  The data object holds its arrays with one row per
  pixel and one column per wavelength; the task of a wavelength works on the column of
  that wavelength.  A data object that was not interpolated on a regular wavelength grid
  is refused.  The worker pool is given by its number of processes.  Its
  \<^verbatim>\<open>map\<close> belongs to the standard library: it cuts the list of inputs into chunks (of
  the length below), hands the chunks to the workers, and returns the results of all
  inputs in the order of the inputs.
\<close>

record cube_data =
  has_regwvs :: bool
  wv_sampling :: "npfloat list"
  dra_as_array :: "npfloat list list"
  ddec_as_array :: "npfloat list list"
  data :: "npfloat list list"
  data_noise :: "npfloat list list"
  bad_pixels :: "npfloat list list"
  N_dithers :: nat

definition np_pi :: real where
  "np_pi = 884279719003555 / 281474976710656"

definition default_N_pix_min :: "npfloat \<Rightarrow> nat \<Rightarrow> npfloat" where
  "default_N_pix_min aper_radius n_dithers =
     fdiv (fmul (fdiv (fmul (Fin np_pi) (fmul aper_radius aper_radius)) (Fin (1 / 100)))
                (Fin (real n_dithers))) (Fin 4)"

definition slice_of :: "cube_data \<Rightarrow> nat \<Rightarrow> slice_pixels" where
  "slice_of D wv_id =
     \<lparr>pX = map (\<lambda>row. row ! wv_id) (dra_as_array D),
      pY = map (\<lambda>row. row ! wv_id) (ddec_as_array D),
      pZ = map (\<lambda>row. row ! wv_id) (data D),
      pZerr = map (\<lambda>row. row ! wv_id) (data_noise D),
      pZbp = map (\<lambda>row. row ! wv_id) (bad_pixels D)\<rparr>"

fun chunks :: "nat \<Rightarrow> 'a list \<Rightarrow> 'a list list" where
  "chunks n [] = []"
| "chunks n (x # xs) = take (max 1 n) (x # xs) # chunks n (drop (max 1 n) (x # xs))"

definition pool_chunksize :: "nat \<Rightarrow> nat \<Rightarrow> nat" where
  "pool_chunksize processes len =
     (let q = len div (processes * 4); extra = len mod (processes * 4)
      in if extra \<noteq> 0 then q + 1 else q)"

definition pool_map :: "nat \<Rightarrow> ('a \<Rightarrow> 'b) \<Rightarrow> 'a list \<Rightarrow> 'b list" where
  "pool_map processes f xs = concat (map (map f) (chunks (pool_chunksize processes (length xs)) xs))"

text \<open>The serial loop of lines 3776--3778.\<close>

definition serial_map :: "('a \<Rightarrow> 'b) \<Rightarrow> 'a list \<Rightarrow> 'b list" where
  "serial_map f xs = fold (\<lambda>inp outputs. outputs @ [f inp]) xs []"

text \<open>Lines 3782--3789: every result is written into the two cubes at its wavelength,
  declination and right ascension.\<close>

definition set_cell :: "npfloat list list list \<Rightarrow> nat \<Rightarrow> nat \<Rightarrow> nat \<Rightarrow> npfloat \<Rightarrow> npfloat list list list" where
  "set_cell cube wv_id dec_id ra_id v =
     cube[wv_id := (cube ! wv_id)[dec_id := (cube ! wv_id ! dec_id)[ra_id := v]]]"

definition merge_task ::
  "nat \<Rightarrow> (nat \<times> nat \<times> npfloat \<times> npfloat) list
    \<Rightarrow> npfloat list list list \<times> npfloat list list list
    \<Rightarrow> npfloat list list list \<times> npfloat list list list" where
  "merge_task wv_id outs cubes =
     fold (\<lambda>(ra_id, dec_id, flux, err) (flux_cube, fluxerr_cube).
             (set_cell flux_cube wv_id dec_id ra_id flux, set_cell fluxerr_cube wv_id dec_id ra_id err))
       outs cubes"

definition build_cube ::
  "(npfloat list \<Rightarrow> npfloat) \<Rightarrow> (nat \<Rightarrow> npfloat \<Rightarrow> npfloat \<Rightarrow> npfloat) \<Rightarrow> cube_data
    \<Rightarrow> npfloat list \<Rightarrow> npfloat list \<Rightarrow> nat option \<Rightarrow> npfloat \<Rightarrow> nat option \<Rightarrow> nat option
    \<Rightarrow> npfloat option \<Rightarrow> py_error + (npfloat list list list \<times> npfloat list list list)" where
  "build_cube mad interp_psf D ra_vec dec_vec mppool aper_radius debug_init debug_end N_pix_min =
     (if \<not> has_regwvs D then Inl PlainException
      else
        let nan_cube = replicate (length (wv_sampling D))
                         (replicate (length dec_vec) (replicate (length ra_vec) NaN));
            d_init = (case debug_init of None \<Rightarrow> 0 | Some a \<Rightarrow> a);
            d_end = (case debug_end of None \<Rightarrow> length (wv_sampling D) | Some b \<Rightarrow> b);
            n_pix_min = (case N_pix_min of None \<Rightarrow> default_N_pix_min aper_radius (N_dithers D)
                                         | Some n \<Rightarrow> n);
            inputs = filter (\<lambda>wv_id. d_init \<le> wv_id \<and> wv_id < d_end) [0..<length (wv_sampling D)];
            task = (\<lambda>wv_id. build_cube_task mad (interp_psf wv_id) (slice_of D wv_id)
                              ra_vec dec_vec aper_radius n_pix_min);
            outputs = (case mppool of Some processes \<Rightarrow> pool_map processes task inputs
                                    | None \<Rightarrow> serial_map task inputs)
        in Inr (fold (\<lambda>(wv_id, outs) cubes. merge_task wv_id outs cubes) (zip inputs outputs)
                  (nan_cube, nan_cube)))"





section \<open>The sector fit of the point-spread function\<close>



























section \<open>Properties of the index arrays and of the sort\<close>

lemma set_np_where: "set (np_where bs) = {i. i < length bs \<and> bs ! i}"
  by (auto simp: np_where_def)


lemma distinct_np_where: "distinct (np_where bs)"
  by (simp add: np_where_def)

lemma length_take_idx: "length (take_idx xs idx) = length idx"
  by (simp add: take_idx_def)



lemma length_ins_key: "length (ins_key s ts) = Suc (length ts)"
  by (induction ts) auto


lemma length_foldr_ins_key: "length (foldr ins_key ps []) = length ps"
  by (induction ps) (auto simp: length_ins_key)


lemma length_np_argsort: "length (np_argsort xs) = length xs"
  by (simp add: np_argsort_def length_foldr_ins_key)












lemma np_where_Nil: "np_where [] = []"
  by (simp add: np_where_def)

lemma np_where_Cons: "np_where (b # bs) = (if b then [0] else []) @ map Suc (np_where bs)"
  unfolding np_where_def
  by (simp add: upt_conv_Cons filter_map comp_def map_Suc_upt[symmetric] del: upt_Suc)


section \<open>Properties of the spectral combiner\<close>



section \<open>Properties of the matched-filter cube\<close>

text \<open>The map of the pool and the serial loop both compute the list of the results in the
  order of the inputs.\<close>

lemma concat_chunks: "concat (chunks n xs) = xs"
proof (induction n xs rule: chunks.induct)
  case (1 n)
  then show ?case by simp
next
  case (2 n x xs)
  have "concat (chunks n (x # xs)) =
          take (max 1 n) (x # xs) @ concat (chunks n (drop (max 1 n) (x # xs)))"
    by (simp del: take_Suc_Cons drop_Suc_Cons)
  then show ?case using 2 by (simp del: take_Suc_Cons drop_Suc_Cons)
qed

lemma pool_map_eq_map: "pool_map processes f xs = map f xs"
proof -
  have "concat (map (map f) (chunks n xs)) = map f (concat (chunks n xs))" for n
    by (simp add: map_concat)
  then show ?thesis by (simp add: pool_map_def concat_chunks)
qed

lemma fold_snoc_eq: "fold (\<lambda>inp outputs. outputs @ [f inp]) xs acc = acc @ map f xs"
  by (induction xs arbitrary: acc) auto

lemma serial_map_eq_map: "serial_map f xs = map f xs"
  by (simp add: serial_map_def fold_snoc_eq)





















text \<open>To evaluate the examples the square root is computed on 0 and on 1, the only
  arguments the examples give it.\<close>

declare root_def [code del]

lemma fsqrt_code [code]:
  "fsqrt (Fin a) = (if a \<ge> 0 then (if a = 0 then Fin 0 else if a = 1 then Fin 1 else Fin (sqrt a)) else NaN)"
  "fsqrt PInf = PInf" "fsqrt NInf = NaN" "fsqrt NaN = NaN"
  by simp_all


text \<open>
  Claim C6.  With a worker pool of any number of processes \<^verbatim>\<open>build_cube\<close> returns the
  same flux cube and the same error cube as without a pool: both branches produce the
  list of the task results in the order of the inputs, and the merge writes each result
  at its own indices.
\<close>

theorem build_cube_pool_independent:
  "build_cube mad interp_psf D ra_vec dec_vec (Some processes) aper_radius debug_init debug_end N_pix_min
     = build_cube mad interp_psf D ra_vec dec_vec None aper_radius debug_init debug_end N_pix_min"
  by (simp add: build_cube_def pool_map_eq_map serial_map_eq_map)









text \<open>The bin of the example below, with the NaN error and with a valid error in its
  place.\<close>

lemma combine_bin_nan_error_example:
  "combine_bin sigma_clip [Fin 1, Fin (3/2)] [Fin 2, Fin 4] [Fin 1, NaN] (Fin 1) 0 = (Fin (3/2), NaN, NaN)"
proof -
  have med: "np_nanmedian [Fin 2, Fin 4] = Fin 3" by code_simp
  show ?thesis
    unfolding combine_bin_def
    apply (simp add: Let_def np_where_Cons np_where_Nil take_idx_def fge_def fle_def med fsub_def put_idx_def)
    apply (cases "sigma_clip [Fin (-1)]")
     apply (simp_all add: np_where_Cons np_where_Nil np_sum_def)
    done
qed

lemma combine_bin_valid_example:
  "combine_bin no_clip [Fin 1, Fin (3/2)] [Fin 2, Fin 4] [Fin 1, Fin 1] (Fin 1) 0 = (Fin (3/2), Fin 3, Fin (1 / sqrt 2))"
proof -
  have med: "np_nanmedian [Fin 2, Fin 4] = Fin 3" by code_simp
  show ?thesis
    unfolding combine_bin_def
    by (simp add: Let_def np_where_Cons np_where_Nil take_idx_def fge_def fle_def med fsub_def put_idx_def no_clip_def np_sum_def)
qed


text \<open>
  Claim C10.  Of four samples, the one with a NaN wavelength and the one with a NaN flux
  are removed, the one with a NaN error is kept.  It shares the single bin with a valid
  sample; whatever the clipping routine decides, the combined flux and the combined error
  of the bin are NaN.  With a valid error in place of the NaN the same bin combines to a
  finite flux and a finite error.
\<close>

theorem combine_spectrum_nan_error:
  "remove_nans [Fin 1, Fin (3/2), NaN, Fin (6/5)] [Fin 2, Fin 4, Fin 1, NaN] [Fin 1, NaN, Fin 1, Fin 1]
     = ([Fin 1, Fin (3/2)], [Fin 2, Fin 4], [Fin 1, NaN])
   \<and> combine_spectrum sigma_clip [Fin 1, Fin (3/2), NaN, Fin (6/5)] [Fin 2, Fin 4, Fin 1, NaN] [Fin 1, NaN, Fin 1, Fin 1] (Fin 1)
     = Inr ([Fin (3/2)], [NaN], [NaN])
   \<and> combine_spectrum no_clip [Fin 1, Fin (3/2), NaN, Fin (6/5)] [Fin 2, Fin 4, Fin 1, NaN] [Fin 1, Fin 1, Fin 1, Fin 1] (Fin 1)
     = Inr ([Fin (3/2)], [Fin 3], [Fin (1 / sqrt 2)])"
proof -
  have r: "remove_nans [Fin 1, Fin (3/2), NaN, Fin (6/5)] [Fin 2, Fin 4, Fin 1, NaN] [Fin 1, NaN, Fin 1, Fin 1]
     = ([Fin 1, Fin (3/2)], [Fin 2, Fin 4], [Fin 1, NaN])"
    by code_simp
  have s: "sort_by_wavelength ([Fin 1, Fin (3/2)], [Fin 2, Fin 4], [Fin 1, NaN])
      = ([Fin 1, Fin (3/2)], [Fin 2, Fin 4], [Fin 1, NaN])"
    by code_simp
  have s': "sort_by_wavelength (remove_nans [Fin 1, Fin (3/2), NaN, Fin (6/5)] [Fin 2, Fin 4, Fin 1, NaN] [Fin 1, Fin 1, Fin 1, Fin 1])
     = ([Fin 1, Fin (3/2)], [Fin 2, Fin 4], [Fin 1, Fin 1])"
    by code_simp
  have nb: "py_int (fdiv (fsub (last [Fin 1, Fin (3/2)]) (hd [Fin 1, Fin (3/2)])) (Fin 1)) = Inr 0"
    by code_simp
  have c: "combine_sorted clip ([Fin 1, Fin (3/2)], fs, es) (Fin 1)
      = Inr ([fst (combine_bin clip [Fin 1, Fin (3/2)] fs es (Fin 1) 0)],
             [fst (snd (combine_bin clip [Fin 1, Fin (3/2)] fs es (Fin 1) 0))],
             [snd (snd (combine_bin clip [Fin 1, Fin (3/2)] fs es (Fin 1) 0))])" for clip fs es
    unfolding combine_sorted_def by (simp add: nb del: hd_conv_nth last.simps list.sel)
  show ?thesis
    by (simp add: r combine_spectrum_def s s' c combine_bin_nan_error_example combine_bin_valid_example)
qed

section \<open>Properties of the row normalizer\<close>

lemma length_fill_idx: "length (fill_idx xs idx c) = length xs"
  unfolding fill_idx_def by (induction idx arbitrary: xs) auto

lemma nth_fill_idx:
  "i < length xs \<Longrightarrow> fill_idx xs idx c ! i = (if i \<in> set idx then c else xs ! i)"
  unfolding fill_idx_def
proof (induction idx arbitrary: xs)
  case Nil
  then show ?case by simp
next
  case (Cons a idx)
  then show ?case by (auto simp: nth_list_update)
qed


lemma put_idx_Cons: "put_idx xs (i # idx) (v # vs) = put_idx (xs[i := v]) idx vs"
  by (simp add: put_idx_def)

lemma put_idx_Nil: "put_idx xs [] vs = xs" "put_idx xs idx [] = xs"
  by (simp_all add: put_idx_def)

lemma nth_put_idx_notin: "i \<notin> set idx \<Longrightarrow> put_idx xs idx vs ! i = xs ! i"
proof (induction idx arbitrary: xs vs)
  case Nil
  then show ?case by (simp add: put_idx_Nil)
next
  case (Cons a idx)
  show ?case
  proof (cases vs)
    case Nil
    then show ?thesis by (simp add: put_idx_Nil)
  next
    case (Cons v vs')
    then show ?thesis using Cons.IH[of "xs[a := v]" vs'] Cons.prems
      by (simp add: put_idx_Cons)
  qed
qed

lemma nth_put_idx_in:
  "distinct idx \<Longrightarrow> length vs = length idx \<Longrightarrow> t < length idx \<Longrightarrow> idx ! t < length xs
    \<Longrightarrow> put_idx xs idx vs ! (idx ! t) = vs ! t"
proof (induction idx arbitrary: xs vs t)
  case Nil
  then show ?case by simp
next
  case (Cons a idx)
  then obtain v vs' where vs: "vs = v # vs'" by (cases vs) auto
  show ?case
  proof (cases t)
    case 0
    then show ?thesis using Cons.prems
      by (simp add: vs put_idx_Cons nth_put_idx_notin)
  next
    case (Suc t')
    then show ?thesis using Cons.prems Cons.IH[of vs' t' "xs[a := v]"]
      by (simp add: vs put_idx_Cons)
  qed
qed

lemma sequence_rows_Inr:
  "sequence_rows f ks = Inr rs \<Longrightarrow>
     length rs = length ks \<and> (\<forall>t<length ks. f (ks ! t) = Inr (rs ! t))"
proof (induction ks arbitrary: rs)
  case Nil
  then show ?case by simp
next
  case (Cons k ks)
  from Cons.prems obtain r rs' where r: "f k = Inr r" "sequence_rows f ks = Inr rs'" "rs = r # rs'"
    by (auto split: sum.splits)
  from Cons.IH[OF r(2)] r show ?case
    by (auto simp: nth_Cons')
qed

lemma task_normrows_row:
  assumes "task_normrows E paras = Inr outs" "k < length (im_rows paras)"
  shows "length outs = length (im_rows paras)"
    and "normrow E (x_nodes paras) (threshold paras) (regularization paras)
               (im_rows paras ! k) (im_wvs_rows paras ! k) (noise_rows paras ! k)
               (badpix_rows paras ! k) (star_model paras ! k)
               (reg_mean_map paras ! k) (reg_std_map paras ! k) = Inr (outs ! k)"
  using sequence_rows_Inr[OF assms(1)[unfolded task_normrows_def]] assms(2)
  by auto

text \<open>The two ways a row returns.\<close>

lemma normrow_Inr_cases:
  assumes "normrow E nodes thr reg img wvs nse bp star rm rs = Inr out"
  shows "(where_row_finite bp img nse star = [] \<and>
          out = \<lparr>new_im_row = img, new_noise_row = nse, new_badpix_row = bp,
                       res_row = replicate (length img) NaN,
                       paras_out_row = replicate (length nodes) NaN\<rparr>)
       \<or> (where_row_finite bp img nse star \<noteq> [] \<and>
          (\<exists>M_spline validpara p m.
             get_spline_model E nodes wvs = Some M_spline \<and>
             fit_columns E (prune_rel reg) reg
                (row_design M_spline star (where_row_finite bp img nse star))
                (take_idx img (where_row_finite bp img nse star))
                (take_idx nse (where_row_finite bp img nse star)) rm rs = Inr (validpara, p, m) \<and>
             out = \<lparr>new_im_row = put_idx img (where_row_finite bp img nse star) m,
                    new_noise_row = put_idx nse (where_row_finite bp img nse star)
                                       (take_idx nse (where_row_finite bp img nse star)),
                    new_badpix_row = fill_idx bp
                       (snd (score E thr (length img) (where_row_finite bp img nse star)
                               (take_idx img (where_row_finite bp img nse star)) m
                               (take_idx nse (where_row_finite bp img nse star)))) NaN,
                    res_row = put_idx (replicate (length img) NaN) (where_row_finite bp img nse star)
                                (map (\<lambda>(a, c). fsub a c)
                                   (zip (take_idx img (where_row_finite bp img nse star)) m)),
                    paras_out_row = put_idx (replicate (length nodes) NaN) validpara p\<rparr>))"
  using assms unfolding normrow_def Let_def
  by (auto split: option.splits if_splits sum.splits prod.splits)

lemma new_badpix_row_cases:
  assumes "normrow E nodes thr reg img wvs nse bp star rm rs = Inr out"
  shows "\<exists>idx. new_badpix_row out = fill_idx bp idx NaN"
proof -
  have "fill_idx bp [] NaN = bp" by (simp add: fill_idx_def)
  then show ?thesis
    using normrow_Inr_cases[OF assms] by (metis row_out.select_convs(3))
qed



lemma fit_columns_Inr:
  assumes "fit_columns E rel reg M0 d d_err rm rs = Inr (validpara, p, m)"
  shows "validpara = valid_columns M0 rel" "length p = length validpara"
    "m = np_dot (map (\<lambda>row. take_idx row validpara) M0) p"
    "length m = length M0"
    "lsq_linear E (fst (fit_system reg (map (\<lambda>row. take_idx row validpara) M0) d d_err validpara rm rs))
                  (snd (fit_system reg (map (\<lambda>row. take_idx row validpara) M0) d d_err validpara rm rs))
       = Some p"
  using assms unfolding fit_columns_def Let_def
  by (auto split: option.splits if_splits prod.splits simp: np_dot_def)





lemma set_valid_columns:
  "j \<in> set (valid_columns M0 rel) \<longleftrightarrow>
     j < length (hd M0) \<and> (\<exists>row\<in>set M0. fgt (row ! j) (fmul (np_nanmax (concat M0)) (Fin rel)))"
  by (auto simp: valid_columns_def set_np_where list_ex_iff)

lemma distinct_valid_columns: "distinct (valid_columns M0 rel)"
  by (simp add: valid_columns_def distinct_np_where)

lemma length_weighted_rows:
  "\<forall>row\<in>set M. length row = c \<Longrightarrow> \<forall>row\<in>set (weighted_rows M s). length row = c"
  by (auto simp: weighted_rows_def dest: set_zip_leftD)

lemma length_fit_system_rows:
  assumes "\<forall>row\<in>set M. length row = length validpara"
  shows "\<forall>row\<in>set (fst (fit_system reg M d d_err validpara rm rs)). length row = length validpara"
proof -
  have "\<forall>row\<in>set (fst (with_prior M d d_err validpara rm rs)). length row = length validpara"
    using assms by (auto simp: with_prior_def Let_def)
  then show ?thesis
    using assms
    by (auto simp: fit_system_def Let_def split: prod.splits if_splits
             dest!: length_weighted_rows[rule_format, rotated] intro: length_weighted_rows[rule_format])
qed

lemma pruned_coefficients:
  assumes fc: "fit_columns E rel reg M0 d d_err rm rs = Inr (validpara, p, m)"
    and N: "length (hd M0) = N"
    and j: "j < N"
  shows "((\<forall>row\<in>set M0. \<not> fgt (row ! j) (fmul (np_nanmax (concat M0)) (Fin rel))) \<longrightarrow>
            put_idx (replicate N NaN) validpara p ! j = NaN)
       \<and> ((\<exists>row\<in>set M0. fgt (row ! j) (fmul (np_nanmax (concat M0)) (Fin rel))) \<longrightarrow>
            (\<exists>t<length p. valid_columns M0 rel ! t = j
                \<and> put_idx (replicate N NaN) validpara p ! j = p ! t))
       \<and> lsq_linear E
            (fst (fit_system reg (map (\<lambda>row. take_idx row (valid_columns M0 rel)) M0) d d_err
                    (valid_columns M0 rel) rm rs))
            (snd (fit_system reg (map (\<lambda>row. take_idx row (valid_columns M0 rel)) M0) d d_err
                    (valid_columns M0 rel) rm rs)) = Some p
       \<and> length p = length (valid_columns M0 rel)
       \<and> (\<forall>row\<in>set (fst (fit_system reg (map (\<lambda>row. take_idx row (valid_columns M0 rel)) M0) d d_err
                    (valid_columns M0 rel) rm rs)). length row = length (valid_columns M0 rel))"
proof -
  note F = fit_columns_Inr[OF fc]
  have vp: "validpara = valid_columns M0 rel" by (rule F(1))
  have dropped: "put_idx (replicate N NaN) validpara p ! j = NaN"
    if "\<forall>row\<in>set M0. \<not> fgt (row ! j) (fmul (np_nanmax (concat M0)) (Fin rel))"
  proof -
    have "j \<notin> set validpara" using that by (simp add: vp set_valid_columns)
    then show ?thesis using j by (simp add: nth_put_idx_notin)
  qed
  have kept: "\<exists>t<length p. valid_columns M0 rel ! t = j
                \<and> put_idx (replicate N NaN) validpara p ! j = p ! t"
    if "\<exists>row\<in>set M0. fgt (row ! j) (fmul (np_nanmax (concat M0)) (Fin rel))"
  proof -
    have "j \<in> set validpara" using that j N by (simp add: vp set_valid_columns)
    then obtain t where t: "t < length validpara" "validpara ! t = j"
      by (auto simp: in_set_conv_nth)
    have "put_idx (replicate N NaN) validpara p ! (validpara ! t) = p ! t"
      using t j F(2) by (intro nth_put_idx_in) (auto simp: vp distinct_valid_columns)
    then show ?thesis using t F(2) by (auto simp: vp)
  qed
  have rows: "\<forall>row\<in>set (fst (fit_system reg (map (\<lambda>row. take_idx row (valid_columns M0 rel)) M0) d d_err
                    (valid_columns M0 rel) rm rs)). length row = length (valid_columns M0 rel)"
    by (rule length_fit_system_rows) (simp add: length_take_idx)
  show ?thesis
    using dropped kept F(2,5) rows unfolding vp by blast
qed

lemma normrow_pruned:
  assumes run: "normrow E nodes thr reg img wvs nse bp star rm rs = Inr out"
    and fitted: "where_row_finite bp img nse star \<noteq> []"
    and spl: "get_spline_model E nodes wvs = Some M_spline"
    and shape: "\<forall>i\<in>set (where_row_finite bp img nse star). length (M_spline ! i) = length nodes"
    and j: "j < length nodes"
  shows "let M0 = row_design M_spline star (where_row_finite bp img nse star);
             T = fmul (np_nanmax (concat M0)) (Fin (prune_rel reg));
             validpara = valid_columns M0 (prune_rel reg);
             sys = fit_system reg (map (\<lambda>row. take_idx row validpara) M0)
                     (take_idx img (where_row_finite bp img nse star))
                     (take_idx nse (where_row_finite bp img nse star)) validpara rm rs
         in ((\<forall>row\<in>set M0. \<not> fgt (row ! j) T) \<longrightarrow> paras_out_row out ! j = NaN)
          \<and> ((\<exists>row\<in>set M0. fgt (row ! j) T) \<longrightarrow>
               (\<exists>p t. lsq_linear E (fst sys) (snd sys) = Some p \<and> t < length p
                   \<and> validpara ! t = j \<and> paras_out_row out ! j = p ! t))
          \<and> (\<forall>row\<in>set (fst sys). length row = length validpara)"
proof -
  define idx where "idx = where_row_finite bp img nse star"
  obtain validpara p m where
    fc: "fit_columns E (prune_rel reg) reg (row_design M_spline star idx)
                (take_idx img idx) (take_idx nse idx) rm rs = Inr (validpara, p, m)"
    and out: "paras_out_row out = put_idx (replicate (length nodes) NaN) validpara p"
    using normrow_Inr_cases[OF run] fitted spl unfolding idx_def by auto
  obtain i0 rest where idx0: "idx = i0 # rest" using fitted unfolding idx_def by (cases "where_row_finite bp img nse star") auto
  have N: "length (hd (row_design M_spline star idx)) = length nodes"
    using shape unfolding idx_def[symmetric] by (simp add: row_design_def idx0)
  from pruned_coefficients[OF fc N j]
  show ?thesis
    unfolding Let_def idx_def[symmetric] out by blast
qed

lemma normslice_pruned:
  assumes run: "task_normslice_2dspline E P = Inr out"
    and design: "slice_design E P (where_slice_finite P) = Inr M0"
    and shape: "length (hd M0) = length (sl_ifuy_nodes P) * length (sl_wv_nodes P)"
    and j: "j < length (sl_ifuy_nodes P) * length (sl_wv_nodes P)"
  shows "let T = fmul (np_nanmax (concat M0)) (Fin (5 / 1000));
             validpara = valid_columns M0 (5 / 1000);
             sys = fit_system True (map (\<lambda>row. take_idx row validpara) M0)
                     (take_idx (sl_im P) (where_slice_finite P))
                     (take_idx (sl_noise P) (where_slice_finite P)) validpara
                     (sl_reg_mean_map P) (sl_reg_std_map P)
         in ((\<forall>row\<in>set M0. \<not> fgt (row ! j) T) \<longrightarrow> sl_paras_out out ! j = NaN)
          \<and> ((\<exists>row\<in>set M0. fgt (row ! j) T) \<longrightarrow>
               (\<exists>p t. lsq_linear E (fst sys) (snd sys) = Some p \<and> t < length p
                   \<and> validpara ! t = j \<and> sl_paras_out out ! j = p ! t))
          \<and> (\<forall>row\<in>set (fst sys). length row = length validpara)"
proof -
  obtain validpara p m where
    fc: "fit_columns E (5 / 1000) True M0
                (take_idx (sl_im P) (where_slice_finite P))
                (take_idx (sl_noise P) (where_slice_finite P))
                (sl_reg_mean_map P) (sl_reg_std_map P) = Inr (validpara, p, m)"
    and out: "sl_paras_out out = put_idx
                 (replicate (length (sl_ifuy_nodes P) * length (sl_wv_nodes P)) NaN) validpara p"
    using run design unfolding task_normslice_2dspline_def Let_def
    by (auto split: if_splits sum.splits prod.splits)
  from pruned_coefficients[OF fc shape j]
  show ?thesis
    unfolding Let_def out by blast
qed

text \<open>With no usable pixel the slice normalizer reads a name that was never bound.\<close>

lemma task_normslice_2dspline_no_usable_pixel:
  "where_slice_finite P = [] \<Longrightarrow> task_normslice_2dspline E P = Inl UnboundLocalError"
  by (simp add: task_normslice_2dspline_def)

text \<open>The examples, evaluated.\<close>

lemma example_run:
  "task_normrows example_ext example_paras =
   Inr [\<lparr>new_im_row = [Fin 1, Fin 1, Fin 1, Fin 7], new_noise_row = [Fin 1, Fin 1, Fin 1, Fin 1],
         new_badpix_row = [Fin 1, Fin 1, NaN, NaN], res_row = [Fin 0, Fin 0, Fin 99, NaN],
         paras_out_row = [Fin 1, NaN]\<rparr>]"
  by code_simp


lemma boundary_run:
  "normrow boundary_ext [Fin 1, Fin 2] (Fin 10) False [Fin 3, Fin 4] [Fin 1, Fin 2]
      [Fin 1, Fin 1] [Fin 1, Fin 1] [Fin 1, Fin (1 / 100)] [] [] =
     Inr \<lparr>new_im_row = [Fin 3, Fin 0], new_noise_row = [Fin 1, Fin 1],
          new_badpix_row = [Fin 1, Fin 1], res_row = [Fin 0, Fin 4],
          paras_out_row = [Fin 3, NaN]\<rparr>"
  by code_simp

lemma slice_run:
  "task_normslice_2dspline example_ext example_slice =
     Inr \<lparr>sl_new_im = [Fin 1], sl_new_noise = [Fin 1], sl_new_badpix = [NaN], sl_res = [Fin 2],
          sl_paras_out = [Fin 1, NaN]\<rparr>"
  by code_simp

text \<open>
  Claim C9.  When \<^verbatim>\<open>_task_normrows\<close> returns, the mask of every row has the length of
  the input mask, every pixel that was NaN in the input mask is NaN in the returned mask,
  and every pixel of the returned mask is either NaN or the input value: a pass flags
  pixels and never restores one.
\<close>

theorem badpix_mask_never_rehabilitated:
  assumes "task_normrows E paras = Inr outs"
    and "k < length (im_rows paras)"
    and "i < length (badpix_rows paras ! k)"
  shows "length (new_badpix_row (outs ! k)) = length (badpix_rows paras ! k)
       \<and> (isnan (badpix_rows paras ! k ! i) \<longrightarrow> isnan (new_badpix_row (outs ! k) ! i))
       \<and> (new_badpix_row (outs ! k) ! i = NaN \<or> new_badpix_row (outs ! k) ! i = badpix_rows paras ! k ! i)"
proof -
  obtain idx where "new_badpix_row (outs ! k) = fill_idx (badpix_rows paras ! k) idx NaN"
    using new_badpix_row_cases[OF task_normrows_row(2)[OF assms(1,2)]] by blast
  then show ?thesis using assms(3)
    by (simp add: length_fill_idx nth_fill_idx)
qed

text \<open>On the example row the fourth pixel enters excluded and leaves excluded.\<close>

theorem badpix_mask_never_rehabilitated_witness:
  "task_normrows example_ext example_paras =
     Inr [\<lparr>new_im_row = [Fin 1, Fin 1, Fin 1, Fin 7], new_noise_row = [Fin 1, Fin 1, Fin 1, Fin 1],
         new_badpix_row = [Fin 1, Fin 1, NaN, NaN], res_row = [Fin 0, Fin 0, Fin 99, NaN],
         paras_out_row = [Fin 1, NaN]\<rparr>]
   \<and> 0 < length (im_rows example_paras)
   \<and> 3 < length (badpix_rows example_paras ! 0)
   \<and> isnan (badpix_rows example_paras ! 0 ! 3)
   \<and> isnan (new_badpix_row ([\<lparr>new_im_row = [Fin 1, Fin 1, Fin 1, Fin 7], new_noise_row = [Fin 1, Fin 1, Fin 1, Fin 1],
         new_badpix_row = [Fin 1, Fin 1, NaN, NaN], res_row = [Fin 0, Fin 0, Fin 99, NaN],
         paras_out_row = [Fin 1, NaN]\<rparr>] ! 0) ! 3)"
proof -
  have k: "0 < length (im_rows example_paras)" by code_simp
  have i: "3 < length (badpix_rows example_paras ! 0)" by code_simp
  have n: "isnan (badpix_rows example_paras ! 0 ! 3)" by code_simp
  from badpix_mask_never_rehabilitated[OF example_run k i] n example_run k i
  show ?thesis by blast
qed






text \<open>
  Claim C1, as amended.  In a fitted row (first part) and in a fitted slice (second
  part), let \<open>T\<close> be the pruning threshold, the largest entry of the design matrix times
  the relative threshold.  A column with no entry strictly above \<open>T\<close>, so in particular a
  column whose largest entry is at or below \<open>T\<close>, has a NaN coefficient in the returned
  vector.  A column with an entry strictly above \<open>T\<close> has the coefficient the solver
  returned for it.  The system handed to the solver holds the kept columns only.
\<close>

theorem pruned_columns_are_nan:
  "(normrow E nodes thr reg img wvs nse bp star rm rs = Inr out
     \<and> where_row_finite bp img nse star \<noteq> []
     \<and> get_spline_model E nodes wvs = Some M_spline
     \<and> (\<forall>i\<in>set (where_row_finite bp img nse star). length (M_spline ! i) = length nodes)
     \<and> j < length nodes
    \<longrightarrow>
     (let M0 = row_design M_spline star (where_row_finite bp img nse star);
          T = fmul (np_nanmax (concat M0)) (Fin (prune_rel reg));
          validpara = valid_columns M0 (prune_rel reg);
          sys = fit_system reg (map (\<lambda>row. take_idx row validpara) M0)
                  (take_idx img (where_row_finite bp img nse star))
                  (take_idx nse (where_row_finite bp img nse star)) validpara rm rs
      in ((\<forall>row\<in>set M0. \<not> fgt (row ! j) T) \<longrightarrow> paras_out_row out ! j = NaN)
       \<and> ((\<exists>row\<in>set M0. fgt (row ! j) T) \<longrightarrow>
            (\<exists>p t. lsq_linear E (fst sys) (snd sys) = Some p \<and> t < length p
                \<and> validpara ! t = j \<and> paras_out_row out ! j = p ! t))
       \<and> (\<forall>row\<in>set (fst sys). length row = length validpara)))
 \<and> (task_normslice_2dspline E P = Inr sout
     \<and> slice_design E P (where_slice_finite P) = Inr S0
     \<and> length (hd S0) = length (sl_ifuy_nodes P) * length (sl_wv_nodes P)
     \<and> c < length (sl_ifuy_nodes P) * length (sl_wv_nodes P)
    \<longrightarrow>
     (let T = fmul (np_nanmax (concat S0)) (Fin (5 / 1000));
          validpara = valid_columns S0 (5 / 1000);
          sys = fit_system True (map (\<lambda>row. take_idx row validpara) S0)
                  (take_idx (sl_im P) (where_slice_finite P))
                  (take_idx (sl_noise P) (where_slice_finite P)) validpara
                  (sl_reg_mean_map P) (sl_reg_std_map P)
      in ((\<forall>row\<in>set S0. \<not> fgt (row ! c) T) \<longrightarrow> sl_paras_out sout ! c = NaN)
       \<and> ((\<exists>row\<in>set S0. fgt (row ! c) T) \<longrightarrow>
            (\<exists>p t. lsq_linear E (fst sys) (snd sys) = Some p \<and> t < length p
                \<and> validpara ! t = c \<and> sl_paras_out sout ! c = p ! t))
       \<and> (\<forall>row\<in>set (fst sys). length row = length validpara)))"
  using normrow_pruned normslice_pruned by blast

text \<open>The row of two pixels on two nodes whose second column is pruned, and the slice of
  one pixel whose second column is pruned.\<close>

theorem pruned_columns_are_nan_witness:
  "normrow boundary_ext [Fin 1, Fin 2] (Fin 10) False [Fin 3, Fin 4] [Fin 1, Fin 2]
      [Fin 1, Fin 1] [Fin 1, Fin 1] [Fin 1, Fin (1 / 100)] [] [] =
     Inr \<lparr>new_im_row = [Fin 3, Fin 0], new_noise_row = [Fin 1, Fin 1],
          new_badpix_row = [Fin 1, Fin 1], res_row = [Fin 0, Fin 4],
          paras_out_row = [Fin 3, NaN]\<rparr>
   \<and> where_row_finite [Fin 1, Fin 1] [Fin 3, Fin 4] [Fin 1, Fin 1] [Fin 1, Fin (1 / 100)] = [0, 1]
   \<and> get_spline_model boundary_ext [Fin 1, Fin 2] [Fin 1, Fin 2] = Some [[Fin 1, Fin 0], [Fin 0, Fin 1]]
   \<and> paras_out_row \<lparr>new_im_row = [Fin 3, Fin 0], new_noise_row = [Fin 1, Fin 1],
          new_badpix_row = [Fin 1, Fin 1], res_row = [Fin 0, Fin 4],
          paras_out_row = [Fin 3, NaN]\<rparr> ! 1 = NaN
   \<and> task_normslice_2dspline example_ext example_slice =
     Inr \<lparr>sl_new_im = [Fin 1], sl_new_noise = [Fin 1], sl_new_badpix = [NaN], sl_res = [Fin 2],
          sl_paras_out = [Fin 1, NaN]\<rparr>
   \<and> slice_design example_ext example_slice (where_slice_finite example_slice) = Inr [[Fin 1, Fin 0]]
   \<and> sl_paras_out \<lparr>sl_new_im = [Fin 1], sl_new_noise = [Fin 1], sl_new_badpix = [NaN], sl_res = [Fin 2],
          sl_paras_out = [Fin 1, NaN]\<rparr> ! 1 = NaN"
proof -
  let ?out = "\<lparr>new_im_row = [Fin 3, Fin 0], new_noise_row = [Fin 1, Fin 1],
          new_badpix_row = [Fin 1, Fin 1], res_row = [Fin 0, Fin 4],
          paras_out_row = [Fin 3, NaN]\<rparr>"
  let ?sout = "\<lparr>sl_new_im = [Fin 1], sl_new_noise = [Fin 1], sl_new_badpix = [NaN], sl_res = [Fin 2],
          sl_paras_out = [Fin 1, NaN]\<rparr>"
  have idx: "where_row_finite [Fin 1, Fin 1] [Fin 3, Fin 4] [Fin 1, Fin 1] [Fin 1, Fin (1 / 100)] = [0, 1]"
    by code_simp
  have fitted: "where_row_finite [Fin 1, Fin 1] [Fin 3, Fin 4] [Fin 1, Fin 1] [Fin 1, Fin (1 / 100)] \<noteq> []"
    by (simp add: idx)
  have spl: "get_spline_model boundary_ext [Fin 1, Fin 2] [Fin 1, Fin 2] = Some [[Fin 1, Fin 0], [Fin 0, Fin 1]]"
    by code_simp
  have shape: "\<forall>i\<in>set (where_row_finite [Fin 1, Fin 1] [Fin 3, Fin 4] [Fin 1, Fin 1] [Fin 1, Fin (1 / 100)]).
                 length ([[Fin 1, Fin 0], [Fin 0, Fin 1]] ! i) = length [Fin 1, Fin (2::real)]"
    unfolding idx by simp
  have j: "(1::nat) < length [Fin 1, Fin (2::real)]" by simp
  have low: "\<forall>row\<in>set (row_design [[Fin 1, Fin 0], [Fin 0, Fin 1]] [Fin 1, Fin (1 / 100)]
                  (where_row_finite [Fin 1, Fin 1] [Fin 3, Fin 4] [Fin 1, Fin 1] [Fin 1, Fin (1 / 100)])).
        \<not> fgt (row ! 1)
            (fmul (np_nanmax (concat (row_design [[Fin 1, Fin 0], [Fin 0, Fin 1]] [Fin 1, Fin (1 / 100)]
                  (where_row_finite [Fin 1, Fin 1] [Fin 3, Fin 4] [Fin 1, Fin 1] [Fin 1, Fin (1 / 100)]))))
                  (Fin (prune_rel False)))"
    by code_simp
  have sd: "slice_design example_ext example_slice (where_slice_finite example_slice) = Inr [[Fin 1, Fin 0]]"
    by code_simp
  have sshape: "length (hd [[Fin 1, Fin (0::real)]]) = length (sl_ifuy_nodes example_slice) * length (sl_wv_nodes example_slice)"
    by code_simp
  have c: "1 < length (sl_ifuy_nodes example_slice) * length (sl_wv_nodes example_slice)"
    by code_simp
  have slow: "\<forall>row\<in>set [[Fin 1, Fin (0::real)]].
       \<not> fgt (row ! 1) (fmul (np_nanmax (concat [[Fin 1, Fin (0::real)]])) (Fin (5 / 1000)))"
    by code_simp
  note T = pruned_columns_are_nan[where E = boundary_ext and nodes = "[Fin 1, Fin 2]" and thr = "Fin 10"
       and reg = False and img = "[Fin 3, Fin 4]" and wvs = "[Fin 1, Fin 2]" and nse = "[Fin 1, Fin 1]"
       and bp = "[Fin 1, Fin 1]" and star = "[Fin 1, Fin (1 / 100)]" and rm = "[]" and rs = "[]"
       and out = ?out and M_spline = "[[Fin 1, Fin 0], [Fin 0, Fin 1]]" and j = 1]
  note T2 = pruned_columns_are_nan[where E = example_ext
       and P = example_slice and sout = ?sout and ?S0.0 = "[[Fin 1, Fin 0]]" and c = 1]
  have one: "paras_out_row ?out ! 1 = NaN"
    using T[THEN conjunct1] boundary_run fitted spl shape j low unfolding Let_def by blast
  have two: "sl_paras_out ?sout ! 1 = NaN"
    using T2[THEN conjunct2] slice_run sd sshape c slow unfolding Let_def by blast
  from boundary_run idx spl one slice_run sd two show ?thesis by blast
qed

text \<open>
  Claim C1 as stated fails at the boundary: the second column of the two-pixel row has
  the largest entry 1/100, which equals the threshold and is not below it, and its
  coefficient is NaN and not a result of the solve.
\<close>

theorem column_at_threshold_is_nan:
  "normrow boundary_ext [Fin 1, Fin 2] (Fin 10) False [Fin 3, Fin 4] [Fin 1, Fin 2]
      [Fin 1, Fin 1] [Fin 1, Fin 1] [Fin 1, Fin (1 / 100)] [] [] =
     Inr \<lparr>new_im_row = [Fin 3, Fin 0], new_noise_row = [Fin 1, Fin 1],
          new_badpix_row = [Fin 1, Fin 1], res_row = [Fin 0, Fin 4],
          paras_out_row = [Fin 3, NaN]\<rparr>
   \<and> row_design [[Fin 1, Fin 0], [Fin 0, Fin 1]] [Fin 1, Fin (1 / 100)] [0, 1] =
       [[Fin 1, Fin 0], [Fin 0, Fin (1 / 100)]]
   \<and> np_nanmax [Fin 0, Fin (1 / 100)] = Fin (1 / 100)
   \<and> fmul (np_nanmax (concat [[Fin 1, Fin 0], [Fin 0, Fin (1 / 100)]])) (Fin (prune_rel False)) = Fin (1 / 100)
   \<and> \<not> flt (np_nanmax [Fin 0, Fin (1 / 100)]) (Fin (1 / 100))"
  by code_simp

section \<open>Properties of the prior\<close>

lemma np_clip_Fin: "np_clip (Fin a) (Fin lo) PInf = Fin (max a lo)"
  by (simp add: np_clip_def Let_def max_def)


text \<open>
  Claim C8.  In the star subtraction, an entry of the earlier coefficients that is a
  finite number \<open>a\<close> gives the prior mean \<open>a\<close> and the prior standard deviation
  \<open>max |a| 1e-11\<close>: the absolute value of the mean, with the clip at \<open>1e-11\<close> as only
  floor, so a mean within \<open>eps\<close> of zero gives a standard deviation of at most
  \<open>max eps 1e-11\<close>.  A NaN entry gives the median of its row as mean and the clipped
  largest absolute value of its row as standard deviation.  In the iterative pass of the
  continuum normalization the standard deviation is the absolute value of the mean with
  no clip at all, a NaN entry taking the entry of the first prior as mean.
\<close>

theorem prior_std_is_abs_mean:
  "(r < length spline_paras0 \<and> c < length (spline_paras0 ! r) \<longrightarrow>
      (spline_paras0 ! r ! c = Fin a \<longrightarrow>
         fst (starsub_prior spline_paras0) ! r ! c = Fin a
       \<and> snd (starsub_prior spline_paras0) ! r ! c = Fin (max \<bar>a\<bar> (1 / 10 ^ 11))
       \<and> (\<bar>a\<bar> \<le> eps \<longrightarrow> (\<exists>s. snd (starsub_prior spline_paras0) ! r ! c = Fin s \<and> 0 < s
                             \<and> s \<le> max eps (1 / 10 ^ 11))))
    \<and> (spline_paras0 ! r ! c = NaN \<longrightarrow>
         fst (starsub_prior spline_paras0) ! r ! c = np_nanmedian (spline_paras0 ! r)
       \<and> snd (starsub_prior spline_paras0) ! r ! c =
           np_clip (np_nanmax (map fabs (spline_paras0 ! r))) (Fin (1 / 10 ^ 11)) PInf))
 \<and> (r < length spline_paras0 \<and> r < length reg_mean_map0 \<and> c < length (spline_paras0 ! r)
      \<and> c < length (reg_mean_map0 ! r) \<longrightarrow>
      (spline_paras0 ! r ! c = Fin a \<longrightarrow>
         fst (contnorm_prior spline_paras0 reg_mean_map0) ! r ! c = Fin a
       \<and> snd (contnorm_prior spline_paras0 reg_mean_map0) ! r ! c = Fin \<bar>a\<bar>)
    \<and> (spline_paras0 ! r ! c = NaN \<longrightarrow>
         fst (contnorm_prior spline_paras0 reg_mean_map0) ! r ! c = reg_mean_map0 ! r ! c
       \<and> snd (contnorm_prior spline_paras0 reg_mean_map0) ! r ! c = fabs (reg_mean_map0 ! r ! c)))"
proof -
  have s1: "fst (starsub_prior spline_paras0) ! r ! c = Fin a
       \<and> snd (starsub_prior spline_paras0) ! r ! c = Fin (max \<bar>a\<bar> (1 / 10 ^ 11))"
    if "r < length spline_paras0" "c < length (spline_paras0 ! r)" "spline_paras0 ! r ! c = Fin a"
    using that by (simp add: starsub_prior_def starsub_reg_mean_row_def starsub_reg_std_row_def np_clip_Fin)
  have s2: "\<exists>s. snd (starsub_prior spline_paras0) ! r ! c = Fin s \<and> 0 < s \<and> s \<le> max eps (1 / 10 ^ 11)"
    if "r < length spline_paras0" "c < length (spline_paras0 ! r)" "spline_paras0 ! r ! c = Fin a"
       "\<bar>a\<bar> \<le> eps"
  proof -
    have "(0::real) < max \<bar>a\<bar> (1 / 10 ^ 11)" by (simp add: less_max_iff_disj)
    moreover have "max \<bar>a\<bar> (1 / 10 ^ 11) \<le> max eps (1 / 10 ^ 11)" using that(4) by (simp add: max_def)
    ultimately show ?thesis using s1[OF that(1-3)] by blast
  qed
  have s3: "fst (starsub_prior spline_paras0) ! r ! c = np_nanmedian (spline_paras0 ! r)
       \<and> snd (starsub_prior spline_paras0) ! r ! c =
           np_clip (np_nanmax (map fabs (spline_paras0 ! r))) (Fin (1 / 10 ^ 11)) PInf"
    if "r < length spline_paras0" "c < length (spline_paras0 ! r)" "spline_paras0 ! r ! c = NaN"
    using that by (simp add: starsub_prior_def starsub_reg_mean_row_def starsub_reg_std_row_def)
  have c1: "fst (contnorm_prior spline_paras0 reg_mean_map0) ! r ! c = Fin a
       \<and> snd (contnorm_prior spline_paras0 reg_mean_map0) ! r ! c = Fin \<bar>a\<bar>"
    if "r < length spline_paras0" "r < length reg_mean_map0" "c < length (spline_paras0 ! r)"
       "c < length (reg_mean_map0 ! r)" "spline_paras0 ! r ! c = Fin a"
    using that by (simp add: contnorm_prior_def Let_def)
  have c2: "fst (contnorm_prior spline_paras0 reg_mean_map0) ! r ! c = reg_mean_map0 ! r ! c
       \<and> snd (contnorm_prior spline_paras0 reg_mean_map0) ! r ! c = fabs (reg_mean_map0 ! r ! c)"
    if "r < length spline_paras0" "r < length reg_mean_map0" "c < length (spline_paras0 ! r)"
       "c < length (reg_mean_map0 ! r)" "spline_paras0 ! r ! c = NaN"
    using that by (simp add: contnorm_prior_def Let_def)
  show ?thesis using s1 s2 s3 c1 c2 by blast
qed


text \<open>A row with the entry \<open>1e-20\<close>, which the star subtraction turns into the standard
  deviation \<open>1e-11\<close>, and a row with the entry 0, which the continuum normalization turns
  into the standard deviation 0.\<close>

theorem prior_std_is_abs_mean_witness:
  "starsub_prior [[Fin (1 / 10 ^ 20), NaN, Fin (- 2)]] =
      ([[Fin (1 / 10 ^ 20), Fin (- 1 + 1 / (2 * 10 ^ 20)), Fin (- 2)]],
       [[Fin (1 / 10 ^ 11), Fin 2, Fin 2]])
   \<and> contnorm_prior [[Fin 0, NaN, Fin (- 2)]] [[Fin 5, Fin 5, Fin 5]] =
      ([[Fin 0, Fin 5, Fin (- 2)]], [[Fin 0, Fin 5, Fin 2]])
   \<and> snd (starsub_prior [[Fin (1 / 10 ^ 20), NaN, Fin (- 2)]]) ! 0 ! 0 = Fin (max \<bar>1 / 10 ^ 20\<bar> (1 / 10 ^ 11))
   \<and> snd (contnorm_prior [[Fin 0, NaN, Fin (- 2)]] [[Fin 5, Fin 5, Fin 5]]) ! 0 ! 0 = Fin \<bar>0\<bar>"
proof -
  have a: "starsub_prior [[Fin (1 / 10 ^ 20), NaN, Fin (- 2)]] =
      ([[Fin (1 / 10 ^ 20), Fin (- 1 + 1 / (2 * 10 ^ 20)), Fin (- 2)]],
       [[Fin (1 / 10 ^ 11), Fin 2, Fin 2]])" by code_simp
  have b: "contnorm_prior [[Fin 0, NaN, Fin (- 2)]] [[Fin 5, Fin 5, Fin 5]] =
      ([[Fin 0, Fin 5, Fin (- 2)]], [[Fin 0, Fin 5, Fin 2]])" by code_simp
  have h: "(0::nat) < length [[Fin (1 / 10 ^ 20), NaN, Fin (- 2)]]
           \<and> 0 < length ([[Fin (1 / 10 ^ 20), NaN, Fin (- 2)]] ! 0)" by simp
  have v: "[[Fin (1 / 10 ^ 20), NaN, Fin (- 2)]] ! 0 ! 0 = Fin (1 / 10 ^ 20)" by simp
  have h2: "(0::nat) < length [[Fin 0, NaN, Fin (- 2)]] \<and> 0 < length [[Fin 5, Fin 5, Fin (5::real)]]
           \<and> 0 < length ([[Fin 0, NaN, Fin (- 2)]] ! 0) \<and> 0 < length ([[Fin 5, Fin 5, Fin (5::real)]] ! 0)" by simp
  have v2: "[[Fin 0, NaN, Fin (- 2)]] ! 0 ! 0 = Fin 0" by simp
  have one: "snd (starsub_prior [[Fin (1 / 10 ^ 20), NaN, Fin (- 2)]]) ! 0 ! 0 = Fin (max \<bar>1 / 10 ^ 20\<bar> (1 / 10 ^ 11))"
    using prior_std_is_abs_mean[where ?spline_paras0.0 = "[[Fin (1 / 10 ^ 20), NaN, Fin (- 2)]]"
       and r = 0 and c = 0 and a = "1 / 10 ^ 20", THEN conjunct1] h v by blast
  have two: "snd (contnorm_prior [[Fin 0, NaN, Fin (- 2)]] [[Fin 5, Fin 5, Fin 5]]) ! 0 ! 0 = Fin \<bar>0\<bar>"
    using prior_std_is_abs_mean[where ?spline_paras0.0 = "[[Fin 0, NaN, Fin (- 2)]]"
       and ?reg_mean_map0.0 = "[[Fin 5, Fin 5, Fin 5]]"
       and r = 0 and c = 0 and a = 0, THEN conjunct2] h2 v2 by blast
  from a b one two show ?thesis by blast
qed
section \<open>The PSF fitter: sectors that are skipped\<close>

























end
